theory Spec2Isabelle
  imports Complex_Main "HOL-Library.Word"
begin

section \<open>Python primitives used by the test scripts\<close>

text \<open>
  Bytes objects are lists of 8-bit words, Python integers are natural numbers or
  integers without a bound, and the floating-point seconds of \<^verbatim>\<open>time.time()\<close>
  are real numbers. An exception is a value of \<open>py_error\<close>; a function that may
  raise returns \<open>py_error + 'a\<close> with \<open>Inl\<close> for the exception.
\<close>

type_synonym byte = "8 word"

datatype py_error =
    StructError
  | OSError
  | SocketTimeout
  | UnboundLocalError
  | ZeroDivisionError
  | StatisticsError
  | ValueError

text \<open>\<^verbatim>\<open>data[a:b]\<close> for indices \<open>0 \<le> a\<close>, \<open>0 \<le> b\<close>: a slice never raises, it is cut at the
  end of the data.\<close>

definition slice :: "'a list \<Rightarrow> nat \<Rightarrow> nat \<Rightarrow> 'a list" where
  "slice data a b = take (b - a) (drop a data)"

text \<open>\<^verbatim>\<open>struct.unpack('>H', bs)[0]\<close>: a big-endian unsigned 16-bit integer; the
  buffer must hold exactly two bytes, otherwise \<^verbatim>\<open>struct.error\<close> is raised.\<close>

fun unpack_H :: "byte list \<Rightarrow> py_error + nat" where
  "unpack_H [hi, lo] = Inr (unat hi * 256 + unat lo)"
| "unpack_H bs = Inl StructError"

text \<open>The big-endian 16-bit number at bytes \<open>i\<close> and \<open>i + 1\<close> of a buffer, for
  stating what is read where.\<close>

definition be16 :: "byte list \<Rightarrow> nat \<Rightarrow> nat" where
  "be16 data i = unat (data ! i) * 256 + unat (data ! (i + 1))"

text \<open>\<^verbatim>\<open>struct.pack('>HH', a, b)\<close>; the two call sites pass the constants
  \<open>0x0001\<close> and \<open>0x0000\<close>, which are in range.\<close>

definition pack_HH :: "nat \<Rightarrow> nat \<Rightarrow> byte list" where
  "pack_HH a b = [of_nat (a div 256), of_nat (a mod 256), of_nat (b div 256), of_nat (b mod 256)]"

text \<open>\<^verbatim>\<open>bytes.hex()\<close>: two lower-case hexadecimal digits for each byte.\<close>

definition hex_digit :: "nat \<Rightarrow> char" where
  "hex_digit n = ''0123456789abcdef'' ! n"

definition hex :: "byte list \<Rightarrow> string" where
  "hex bs = concat (map (\<lambda>b. [hex_digit (unat b div 16), hex_digit (unat b mod 16)]) bs)"

text \<open>The value of a hexadecimal digit, for showing that \<open>hex\<close> loses nothing.\<close>

definition hex_value :: "char \<Rightarrow> nat" where
  "hex_value c = (if of_char c < (97::nat) then of_char c - 48 else of_char c - 87)"

text \<open>\<^verbatim>\<open>socket.inet_ntoa(packed)\<close>: the packed address must be exactly four bytes,
  otherwise \<^verbatim>\<open>OSError\<close> is raised. The dotted-quad string is represented by its
  four decimal octets.\<close>

definition inet_ntoa :: "byte list \<Rightarrow> py_error + nat list" where
  "inet_ntoa packed = (if length packed = 4 then Inr (map unat packed) else Inl OSError)"

section \<open>The STUN codec of \<^verbatim>\<open>test-stun-server.py\<close>\<close>

text \<open>\<^verbatim>\<open>create_stun_request\<close>. The twelve random bytes of the transaction id are
  the argument \<open>transaction_id\<close>.\<close>

definition create_stun_request :: "byte list \<Rightarrow> byte list \<times> byte list" where
  "create_stun_request transaction_id =
     (let msg_type = 0x0001;
          msg_length = 0x0000;
          stun_msg = pack_HH msg_type msg_length @ transaction_id
      in (stun_msg, transaction_id))"

text \<open>The dictionaries built by \<^verbatim>\<open>parse_stun_response\<close>. The key
  \<^verbatim>\<open>'attributes'\<close> is present only when the attribute loop ran: an absent key is
  \<open>None\<close>.\<close>

record attribute =
  type' :: nat
  length' :: nat
  value' :: "byte list"

record stun_result =
  msg_type :: nat
  msg_length :: nat
  transaction_id :: string
  attributes :: "attribute list option"

text \<open>The \<^verbatim>\<open>while offset < 20 + msg_length\<close> loop of \<^verbatim>\<open>parse_stun_response\<close>,
  with the loop variables \<open>offset\<close> and \<open>attributes\<close> as arguments.\<close>

function parse_attributes ::
  "byte list \<Rightarrow> nat \<Rightarrow> nat \<Rightarrow> attribute list \<Rightarrow> py_error + attribute list" where
  "parse_attributes data msg_len offset attrs =
     (if offset < 20 + msg_len then
        (if offset + 4 > length data then Inr attrs
         else
           (case unpack_H (slice data offset (offset + 2)) of
              Inl e \<Rightarrow> Inl e
            | Inr attr_type \<Rightarrow>
                (case unpack_H (slice data (offset + 2) (offset + 4)) of
                   Inl e \<Rightarrow> Inl e
                 | Inr attr_length \<Rightarrow>
                     (let attr_value = slice data (offset + 4) (offset + 4 + attr_length)
                      in parse_attributes data msg_len (offset + 4 + attr_length)
                           (attrs @ [\<lparr>type' = attr_type, length' = attr_length,
                                      value' = attr_value\<rparr>])))))
      else Inr attrs)"
  by pat_completeness auto
termination
  by (relation "measure (\<lambda>(data, msg_len, offset, attrs). 20 + msg_len - offset)") auto

declare parse_attributes.simps [simp del]

text \<open>The same loop with a bound on the number of times the loop condition is
  tested: \<open>None\<close> when the bound is used up before the loop has left.\<close>

fun parse_attributes_fuel ::
  "nat \<Rightarrow> byte list \<Rightarrow> nat \<Rightarrow> nat \<Rightarrow> attribute list \<Rightarrow> (py_error + attribute list) option" where
  "parse_attributes_fuel 0 data msg_len offset attrs = None"
| "parse_attributes_fuel (Suc fuel) data msg_len offset attrs =
     (if offset < 20 + msg_len then
        (if offset + 4 > length data then Some (Inr attrs)
         else
           (case unpack_H (slice data offset (offset + 2)) of
              Inl e \<Rightarrow> Some (Inl e)
            | Inr attr_type \<Rightarrow>
                (case unpack_H (slice data (offset + 2) (offset + 4)) of
                   Inl e \<Rightarrow> Some (Inl e)
                 | Inr attr_length \<Rightarrow>
                     (let attr_value = slice data (offset + 4) (offset + 4 + attr_length)
                      in parse_attributes_fuel fuel data msg_len (offset + 4 + attr_length)
                           (attrs @ [\<lparr>type' = attr_type, length' = attr_length,
                                      value' = attr_value\<rparr>])))))
      else Some (Inr attrs))"

text \<open>\<^verbatim>\<open>parse_stun_response\<close> returns the pair \<^verbatim>\<open>(None, "Response too short")\<close> or
  \<^verbatim>\<open>(result, None)\<close>: the inner sum, \<open>Inl\<close> for the error string. The outer sum is an
  exception raised by \<^verbatim>\<open>struct.unpack\<close>. Local variables that share their name with a
  dictionary key carry a prime.\<close>

definition parse_stun_response :: "byte list \<Rightarrow> py_error + (string + stun_result)" where
  "parse_stun_response data =
     (if length data < 20 then Inr (Inl ''Response too short'')
      else
        (case unpack_H (slice data 0 2) of
           Inl e \<Rightarrow> Inl e
         | Inr msg_type' \<Rightarrow>
             (case unpack_H (slice data 2 4) of
                Inl e \<Rightarrow> Inl e
              | Inr msg_length' \<Rightarrow>
                  (let transaction_id' = slice data 4 16;
                       result = \<lparr>msg_type = msg_type', msg_length = msg_length',
                                 transaction_id = hex transaction_id', attributes = None\<rparr>
                   in if msg_length' > 0 \<and> length data \<ge> 20 + msg_length' then
                        (case parse_attributes data msg_length' 20 [] of
                           Inl e \<Rightarrow> Inl e
                         | Inr attributes' \<Rightarrow>
                             Inr (Inr (result\<lparr>attributes := Some attributes'\<rparr>)))
                      else Inr (Inr result)))))"

text \<open>The MAPPED-ADDRESS block of \<^verbatim>\<open>test_stun_server\<close> (the body of
  \<^verbatim>\<open>if len(attr['value']) >= 8\<close> and the test itself). The result is what the
  block prints: the mapped IP and port, or nothing.\<close>

definition parse_mapped_address :: "byte list \<Rightarrow> py_error + (nat list \<times> nat) option" where
  "parse_mapped_address v =
     (if length v \<ge> 8 then
        (case unpack_H (slice v 2 4) of
           Inl e \<Rightarrow> Inl e
         | Inr family \<Rightarrow>
             (case unpack_H (slice v 4 6) of
                Inl e \<Rightarrow> Inl e
              | Inr port \<Rightarrow>
                  (if family = 0x01 then
                     (case inet_ntoa (slice v 6 10) of
                        Inl e \<Rightarrow> Inl e
                      | Inr ip \<Rightarrow> Inr (Some (ip, port)))
                   else Inr None)))
      else Inr None)"

text \<open>\<^verbatim>\<open>for attr in parsed['attributes']\<close>: the first attribute of type \<open>0x0001\<close> is
  examined, then the loop breaks.\<close>

fun find_mapped_address :: "attribute list \<Rightarrow> py_error + (nat list \<times> nat) option" where
  "find_mapped_address [] = Inr None"
| "find_mapped_address (attr # rest) =
     (if type' attr = 0x0001 then parse_mapped_address (value' attr)
      else find_mapped_address rest)"

text \<open>What one call of \<^verbatim>\<open>sendto\<close> followed by \<^verbatim>\<open>recvfrom\<close> can do; \<open>Datagram\<close>
  holds the bytes \<^verbatim>\<open>recvfrom\<close> returned.\<close>

datatype reply = SendFailed | RecvTimedOut | RecvFailed | Datagram "byte list"

text \<open>A peer that answers every request with the same datagram.\<close>

definition fixed_server :: "byte list \<Rightarrow> byte list \<Rightarrow> reply" where
  "fixed_server response request = Datagram response"

text \<open>\<^verbatim>\<open>test_stun_server\<close>. The environment is \<open>socket_ok\<close> (whether
  \<^verbatim>\<open>socket.socket\<close> succeeds), the random bytes \<open>rand\<close> of the transaction id and
  \<open>server\<close>, the reply to the request sent. Every exception inside the
  \<^verbatim>\<open>try\<close> is caught and answered with \<^verbatim>\<open>False\<close>; when the socket could not be created,
  \<^verbatim>\<open>sock.close()\<close> in the \<^verbatim>\<open>finally\<close> block finds \<^verbatim>\<open>sock\<close> unbound and raises.\<close>

definition test_stun_server :: "bool \<Rightarrow> byte list \<Rightarrow> (byte list \<Rightarrow> reply) \<Rightarrow> py_error + bool" where
  "test_stun_server socket_ok rand server =
     (if \<not> socket_ok then Inl UnboundLocalError
      else
        (let (stun_request, transaction_id') = create_stun_request rand
         in case server stun_request of
              SendFailed \<Rightarrow> Inr False
            | RecvTimedOut \<Rightarrow> Inr False
            | RecvFailed \<Rightarrow> Inr False
            | Datagram response \<Rightarrow>
                (case parse_stun_response response of
                   Inl e \<Rightarrow> Inr False
                 | Inr (Inl error) \<Rightarrow> Inr False
                 | Inr (Inr parsed) \<Rightarrow>
                     (if msg_type parsed = 0x0101 then
                        (case attributes parsed of
                           None \<Rightarrow> Inr True
                         | Some attrs \<Rightarrow>
                             (case find_mapped_address attrs of
                                Inl e \<Rightarrow> Inr False
                              | Inr mapped \<Rightarrow> Inr True))
                      else Inr False))))"

section \<open>Statistics and arithmetic of the standard library\<close>

text \<open>\<^verbatim>\<open>statistics.mean\<close> and \<^verbatim>\<open>statistics.stdev\<close> compute with exact fractions and
  raise \<^verbatim>\<open>StatisticsError\<close> on fewer than one, respectively two, data points;
  \<^verbatim>\<open>min\<close> and \<^verbatim>\<open>max\<close> scan the list and raise \<^verbatim>\<open>ValueError\<close> on an empty one;
  \<^verbatim>\<open>a / b\<close> raises \<^verbatim>\<open>ZeroDivisionError\<close> when \<open>b\<close> is zero.\<close>

definition statistics_mean :: "real list \<Rightarrow> py_error + real" where
  "statistics_mean xs =
     (if xs = [] then Inl StatisticsError else Inr (sum_list xs / real (length xs)))"

definition statistics_stdev :: "real list \<Rightarrow> py_error + real" where
  "statistics_stdev xs =
     (if length xs < 2 then Inl StatisticsError
      else
        (let c = sum_list xs / real (length xs);
             ss = sum_list (map (\<lambda>x. (x - c) ^ 2) xs)
         in Inr (sqrt (ss / real (length xs - 1)))))"

fun py_min :: "real list \<Rightarrow> py_error + real" where
  "py_min [] = Inl ValueError"
| "py_min (x # xs) = Inr (fold (\<lambda>y m. if y < m then y else m) xs x)"

fun py_max :: "real list \<Rightarrow> py_error + real" where
  "py_max [] = Inl ValueError"
| "py_max (x # xs) = Inr (fold (\<lambda>y m. if y > m then y else m) xs x)"

definition py_div :: "real \<Rightarrow> real \<Rightarrow> py_error + real" where
  "py_div a b = (if b = 0 then Inl ZeroDivisionError else Inr (a / b))"

section \<open>The latency tests\<close>

text \<open>One echo exchange on an open socket: \<^verbatim>\<open>sendto\<close> raises, \<^verbatim>\<open>recvfrom\<close> times
  out or raises, or a datagram arrives. \<open>Received matched elapsed\<close> says whether the
  datagram equals the data sent and gives \<^verbatim>\<open>end_time - start_time\<close> in seconds. Where
  the socket is opened anew in each iteration, \<open>NoSocket\<close> is the failure of
  \<^verbatim>\<open>socket.socket\<close>.\<close>

datatype exchange = SendError | RecvTimeout | RecvError | Received bool real

datatype attempt = NoSocket | Exchange exchange

text \<open>Environments for concrete runs: \<open>script xs d\<close> plays the outcomes \<open>xs\<close> in
  order and \<open>d\<close> ever after.\<close>

definition script :: "'a list \<Rightarrow> 'a \<Rightarrow> nat \<Rightarrow> 'a" where
  "script xs d i = (if i < length xs then xs ! i else d)"

record latency_results =
  average :: real
  minimum :: real
  maximum :: real
  std_dev :: real
  samples :: "real list"

text \<open>The statistics block, the same in \<^verbatim>\<open>SpeedTest.test_latency\<close> and
  \<^verbatim>\<open>RelaySpeedTest.test_latency\<close>; the record is \<^verbatim>\<open>self.results['latency']\<close>.\<close>

definition latency_statistics :: "real list \<Rightarrow> py_error + latency_results" where
  "latency_statistics latencies =
     (case statistics_mean latencies of
        Inl e \<Rightarrow> Inl e
      | Inr avg_latency \<Rightarrow>
          (case py_min latencies of
             Inl e \<Rightarrow> Inl e
           | Inr min_latency \<Rightarrow>
               (case py_max latencies of
                  Inl e \<Rightarrow> Inl e
                | Inr max_latency \<Rightarrow>
                    (case (if length latencies > 1 then statistics_stdev latencies else Inr 0) of
                       Inl e \<Rightarrow> Inl e
                     | Inr std_latency \<Rightarrow>
                         Inr \<lparr>average = avg_latency, minimum = min_latency,
                              maximum = max_latency, std_dev = std_latency,
                              samples = latencies\<rparr>))))"

text \<open>\<^verbatim>\<open>SpeedTest.test_latency\<close> (\<^verbatim>\<open>test-speed.py\<close>): one socket, and the
  \<^verbatim>\<open>for\<close> loop inside a single \<^verbatim>\<open>try\<close>. The loop takes the outcome \<open>net i\<close> of
  iteration \<open>i\<close>, the latencies so far and the number of iterations entered so far; an
  exception leaves the loop.\<close>

fun speed_latency_loop ::
  "(nat \<Rightarrow> exchange) \<Rightarrow> nat list \<Rightarrow> real list \<Rightarrow> nat \<Rightarrow> (py_error + real list) \<times> nat" where
  "speed_latency_loop net [] latencies entered = (Inr latencies, entered)"
| "speed_latency_loop net (i # rest) latencies entered =
     (case net i of
        SendError \<Rightarrow> (Inl OSError, Suc entered)
      | RecvTimeout \<Rightarrow> (Inl SocketTimeout, Suc entered)
      | RecvError \<Rightarrow> (Inl OSError, Suc entered)
      | Received matched elapsed \<Rightarrow>
          (let latency = elapsed * 1000
           in speed_latency_loop net rest (latencies @ [latency]) (Suc entered)))"

text \<open>The result is the value returned (or the exception raised by \<^verbatim>\<open>sock.close()\<close>
  on an unbound \<^verbatim>\<open>sock\<close>), the number of iterations entered and
  \<^verbatim>\<open>self.results['latency']\<close>.\<close>

definition speed_test_latency ::
  "bool \<Rightarrow> nat \<Rightarrow> (nat \<Rightarrow> exchange) \<Rightarrow> (py_error + bool) \<times> nat \<times> latency_results option" where
  "speed_test_latency socket_ok iterations net =
     (if \<not> socket_ok then (Inl UnboundLocalError, 0, None)
      else
        (case speed_latency_loop net [0..<iterations] [] 0 of
           (Inl e, entered) \<Rightarrow> (Inr False, entered, None)
         | (Inr latencies, entered) \<Rightarrow>
             (case latency_statistics latencies of
                Inl e \<Rightarrow> (Inr False, entered, None)
              | Inr results \<Rightarrow> (Inr True, entered, Some results))))"

text \<open>\<^verbatim>\<open>RelaySpeedTest.test_latency\<close> (\<^verbatim>\<open>test-relay-speed.py\<close>): a socket and a
  \<^verbatim>\<open>try\<close> in each iteration; every exception is answered with \<^verbatim>\<open>continue\<close>.\<close>

fun relay_latency_loop ::
  "(nat \<Rightarrow> attempt) \<Rightarrow> nat list \<Rightarrow> real list \<Rightarrow> nat \<Rightarrow> real list \<times> nat" where
  "relay_latency_loop net [] latencies entered = (latencies, entered)"
| "relay_latency_loop net (i # rest) latencies entered =
     (case net i of
        Exchange (Received matched elapsed) \<Rightarrow>
          (let latency = elapsed * 1000
           in relay_latency_loop net rest (latencies @ [latency]) (Suc entered))
      | _ \<Rightarrow> relay_latency_loop net rest latencies (Suc entered))"

definition relay_test_latency ::
  "nat \<Rightarrow> (nat \<Rightarrow> attempt) \<Rightarrow> (py_error + bool) \<times> nat \<times> latency_results option" where
  "relay_test_latency iterations net =
     (case relay_latency_loop net [0..<iterations] [] 0 of
        (latencies, entered) \<Rightarrow>
          (if latencies \<noteq> [] then
             (case latency_statistics latencies of
                Inl e \<Rightarrow> (Inl e, entered, None)
              | Inr results \<Rightarrow> (Inr True, entered, Some results))
           else (Inr False, entered, None)))"

section \<open>The throughput test of \<^verbatim>\<open>test-relay-speed.py\<close>\<close>


record throughput_result =
  data_size :: nat
  iterations :: nat
  successful_transfers :: nat
  success_rate :: real
  avg_duration_ms :: real
  min_duration_ms :: real
  max_duration_ms :: real
  std_duration_ms :: real
  throughput_mbps :: real
  throughput_roundtrip_mbps :: real

text \<open>The block after the loop: the dictionary returned for a non-empty list of
  durations, \<^verbatim>\<open>None\<close> for an empty one. Nothing here is inside a \<^verbatim>\<open>try\<close>.\<close>

definition throughput_summary ::
  "nat \<Rightarrow> nat \<Rightarrow> real list \<Rightarrow> nat \<Rightarrow> py_error + throughput_result option" where
  "throughput_summary data_size' iterations' durations successful_transfers' =
     (if durations \<noteq> [] then
        (case statistics_mean durations of
           Inl e \<Rightarrow> Inl e
         | Inr avg_duration \<Rightarrow>
        (case py_min durations of
           Inl e \<Rightarrow> Inl e
         | Inr min_duration \<Rightarrow>
        (case py_max durations of
           Inl e \<Rightarrow> Inl e
         | Inr max_duration \<Rightarrow>
        (case (if length durations > 1 then statistics_stdev durations else Inr 0) of
           Inl e \<Rightarrow> Inl e
         | Inr std_duration \<Rightarrow>
        (case py_div (real (data_size' * 8)) (avg_duration * 1000000) of
           Inl e \<Rightarrow> Inl e
         | Inr throughput_mbps' \<Rightarrow>
        (case py_div (real (data_size' * 8 * 2)) (avg_duration * 1000000) of
           Inl e \<Rightarrow> Inl e
         | Inr throughput_roundtrip_mbps' \<Rightarrow>
        (case py_div (real successful_transfers') (real iterations') of
           Inl e \<Rightarrow> Inl e
         | Inr ratio \<Rightarrow>
             Inr (Some \<lparr>data_size = data_size', iterations = iterations',
                        successful_transfers = successful_transfers',
                        success_rate = ratio * 100,
                        avg_duration_ms = avg_duration * 1000,
                        min_duration_ms = min_duration * 1000,
                        max_duration_ms = max_duration * 1000,
                        std_duration_ms = std_duration * 1000,
                        throughput_mbps = throughput_mbps',
                        throughput_roundtrip_mbps = throughput_roundtrip_mbps'\<rparr>))))))))
      else Inr None)"


section \<open>The stress test of \<^verbatim>\<open>test-speed.py\<close>\<close>

text \<open>The \<^verbatim>\<open>while time.time() - start_time < duration\<close> loop of
  \<^verbatim>\<open>SpeedTest.test_stress\<close> runs as long as the clock allows: the argument is the
  list of the exchanges of the iterations it ran. The counters are
  \<^verbatim>\<open>messages_sent\<close>, \<^verbatim>\<open>messages_received\<close> and \<^verbatim>\<open>errors\<close>.\<close>

fun stress_loop :: "exchange list \<Rightarrow> nat \<times> nat \<times> nat \<Rightarrow> nat \<times> nat \<times> nat" where
  "stress_loop [] (sent, received, errs) = (sent, received, errs)"
| "stress_loop (ev # rest) (sent, received, errs) =
     (case ev of
        SendError \<Rightarrow> stress_loop rest (sent, received, errs + 1)
      | RecvTimeout \<Rightarrow> stress_loop rest (sent + 1, received, errs + 1)
      | RecvError \<Rightarrow> stress_loop rest (sent + 1, received, errs + 1)
      | Received matched elapsed \<Rightarrow>
          stress_loop rest (sent + 1, (if matched then received + 1 else received), errs))"

record stress_results =
  duration :: real
  messages_sent :: nat
  messages_received :: nat
  errors :: nat
  success_rate :: real
  messages_per_second :: real

text \<open>\<^verbatim>\<open>SpeedTest.test_stress\<close>: \<open>actual_duration\<close> is \<^verbatim>\<open>end_time - start_time\<close>. The
  division by it is inside the \<^verbatim>\<open>try\<close>, so a \<^verbatim>\<open>ZeroDivisionError\<close> is answered
  with \<^verbatim>\<open>False\<close>. The result is the value returned and
  \<^verbatim>\<open>self.results['stress']\<close>.\<close>

definition test_stress ::
  "bool \<Rightarrow> exchange list \<Rightarrow> real \<Rightarrow> (py_error + bool) \<times> stress_results option" where
  "test_stress socket_ok events actual_duration =
     (if \<not> socket_ok then (Inl UnboundLocalError, None)
      else
        (case stress_loop events (0, 0, 0) of
           (messages_sent', messages_received', errors') \<Rightarrow>
             (let success_rate' =
                    (if messages_sent' > 0
                     then real messages_received' / real messages_sent' * 100 else 0)
              in case py_div (real messages_sent') actual_duration of
                   Inl e \<Rightarrow> (Inr False, None)
                 | Inr messages_per_second' \<Rightarrow>
                     (Inr (success_rate' > 80),
                      Some \<lparr>duration = actual_duration, messages_sent = messages_sent',
                            messages_received = messages_received', errors = errors',
                            success_rate = success_rate',
                            messages_per_second = messages_per_second'\<rparr>))))"

section \<open>The response decoder\<close>

subsection \<open>Two-byte reads and the attribute loop\<close>

lemma slice_two:
  assumes "i + 2 \<le> length data"
  shows "slice data i (i + 2) = [data ! i, data ! (i + 1)]"
proof -
  have a: "drop i data = data ! i # drop (Suc i) data"
    using assms by (simp add: Cons_nth_drop_Suc)
  have b: "drop (Suc i) data = data ! (Suc i) # drop (Suc (Suc i)) data"
    using assms by (simp add: Cons_nth_drop_Suc)
  have "take 2 (drop i data) = [data ! i, data ! (Suc i)]"
    by (subst a, subst b) (simp add: numeral_2_eq_2)
  then show ?thesis by (simp add: slice_def)
qed

lemma unpack_H_slice:
  assumes "i + 2 \<le> length data"
  shows "unpack_H (slice data i (i + 2)) = Inr (be16 data i)"
  by (simp only: slice_two[OF assms] unpack_H.simps be16_def)

lemma unpack_H_slice_at:
  assumes "j = i + 2" "j \<le> length data"
  shows "unpack_H (slice data i j) = Inr (be16 data i)"
  using assms unpack_H_slice by blast

lemma unpack_H_slice2:
  assumes "i + 4 \<le> length data"
  shows "unpack_H (slice data (i + 2) (i + 4)) = Inr (be16 data (i + 2))"
  using assms by (intro unpack_H_slice_at) simp_all

lemma parse_attributes_step:
  assumes "off < 20 + m" "off + 4 \<le> length data"
  shows "parse_attributes data m off attrs =
         parse_attributes data m (off + 4 + be16 data (off + 2))
           (attrs @ [\<lparr>type' = be16 data off, length' = be16 data (off + 2),
              value' = slice data (off + 4) (off + 4 + be16 data (off + 2))\<rparr>])"
proof -
  have 1: "unpack_H (slice data off (off + 2)) = Inr (be16 data off)"
    using assms by (intro unpack_H_slice) simp
  have 2: "unpack_H (slice data (off + 2) (off + 4)) = Inr (be16 data (off + 2))"
    using assms by (intro unpack_H_slice2) simp
  show ?thesis
    using assms by (subst parse_attributes.simps) (simp only: 1 2 Let_def sum.case, simp)
qed

lemma parse_attributes_exit:
  assumes "\<not> (off < 20 + m \<and> off + 4 \<le> length data)"
  shows "parse_attributes data m off attrs = Inr attrs"
  using assms by (subst parse_attributes.simps) auto

lemma parse_attributes_returns: "\<exists>as. parse_attributes data m off attrs = Inr as"
proof (induction data m off attrs rule: parse_attributes.induct)
  case (1 data m off attrs)
  show ?case
  proof (cases "off < 20 + m \<and> off + 4 \<le> length data")
    case True
    have 1: "unpack_H (slice data off (off + 2)) = Inr (be16 data off)"
      using True by (intro unpack_H_slice) simp
    have 2: "unpack_H (slice data (off + 2) (off + 4)) = Inr (be16 data (off + 2))"
      using True by (intro unpack_H_slice2) simp
    have "\<exists>as. parse_attributes data m (off + 4 + be16 data (off + 2))
           (attrs @ [\<lparr>type' = be16 data off, length' = be16 data (off + 2),
              value' = slice data (off + 4) (off + 4 + be16 data (off + 2))\<rparr>]) = Inr as"
      using True by (intro "1.IH"[OF _ _ 1 2 refl]) auto
    then show ?thesis
      using True by (simp only: parse_attributes_step)
  next
    case False
    show ?thesis by (simp add: parse_attributes_exit[OF False])
  qed
qed

lemma fuel_step:
  assumes "off < 20 + m" "off + 4 \<le> length data"
  shows "parse_attributes_fuel (Suc fuel) data m off attrs =
         parse_attributes_fuel fuel data m (off + 4 + be16 data (off + 2))
           (attrs @ [\<lparr>type' = be16 data off, length' = be16 data (off + 2),
              value' = slice data (off + 4) (off + 4 + be16 data (off + 2))\<rparr>])"
proof -
  have 1: "unpack_H (slice data off (off + 2)) = Inr (be16 data off)"
    using assms by (intro unpack_H_slice) simp
  have 2: "unpack_H (slice data (off + 2) (off + 4)) = Inr (be16 data (off + 2))"
    using assms by (intro unpack_H_slice2) simp
  show ?thesis
    using assms by (simp only: parse_attributes_fuel.simps 1 2 Let_def sum.case, simp)
qed

lemma fuel_exit:
  assumes "\<not> (off < 20 + m \<and> off + 4 \<le> length data)"
  shows "parse_attributes_fuel (Suc fuel) data m off attrs = Some (Inr attrs)"
  using assms by (cases "off < 20 + m") simp_all

lemma fuel_enough:
  "20 + m - off + 3 < 4 * fuel \<Longrightarrow>
   parse_attributes_fuel fuel data m off attrs = Some (parse_attributes data m off attrs)"
proof (induction fuel arbitrary: off attrs)
  case 0
  then show ?case by simp
next
  case (Suc fuel)
  show ?case
  proof (cases "off < 20 + m \<and> off + 4 \<le> length data")
    case True
    have "20 + m - (off + 4 + be16 data (off + 2)) + 3 < 4 * fuel"
      using Suc.prems True by arith
    from Suc.IH[OF this] True show ?thesis
      by (simp only: fuel_step parse_attributes_step)
  next
    case False
    show ?thesis by (simp only: parse_attributes_exit[OF False] fuel_exit[OF False])
  qed
qed

lemma parse_stun_response_short:
  "length data < 20 \<Longrightarrow> parse_stun_response data = Inr (Inl ''Response too short'')"
  by (simp add: parse_stun_response_def)

lemma parse_stun_response_header:
  assumes "20 \<le> length data"
  shows "parse_stun_response data =
           Inr (Inr \<lparr>msg_type = be16 data 0, msg_length = be16 data 2,
                     transaction_id = hex (slice data 4 16),
                     attributes =
                       (if be16 data 2 > 0 \<and> 20 + be16 data 2 \<le> length data
                        then (case parse_attributes data (be16 data 2) 20 [] of
                                Inl e \<Rightarrow> None | Inr as \<Rightarrow> Some as)
                        else None)\<rparr>)"
proof -
  have 1: "unpack_H (slice data 0 2) = Inr (be16 data 0)"
    using assms by (intro unpack_H_slice_at) simp_all
  have 2: "unpack_H (slice data 2 4) = Inr (be16 data 2)"
    using assms by (intro unpack_H_slice_at) simp_all
  obtain as where 3: "parse_attributes data (be16 data 2) 20 [] = Inr as"
    using parse_attributes_returns by blast
  show ?thesis
    using assms by (simp add: parse_stun_response_def 1 2 3 Let_def)
qed

subsection \<open>Truncated input\<close>

text \<open>
  Claim C2. An input shorter than 20 bytes is answered with the error
  \<^verbatim>\<open>"Response too short"\<close>. An input of at least 20 bytes whose header declares more
  attribute bytes than follow the first 20 bytes is not an error: the guard
  \<^verbatim>\<open>len(data) >= 20 + msg_length\<close> skips the attribute loop, and the decoder returns
  the header fields in a message without the key \<^verbatim>\<open>'attributes'\<close>.
\<close>

theorem truncated_attributes_not_an_error:
  "(length data < 20 \<longrightarrow> parse_stun_response data = Inr (Inl ''Response too short'')) \<and>
   (20 \<le> length data \<and> length data < 20 + be16 data 2 \<longrightarrow>
      parse_stun_response data =
        Inr (Inr \<lparr>msg_type = be16 data 0, msg_length = be16 data 2,
                  transaction_id = hex (slice data 4 16), attributes = None\<rparr>))"
  by (simp add: parse_stun_response_short parse_stun_response_header)

theorem truncated_attributes_not_an_error_witness:
  "length [0x01, 0x01, 0x00, 0x04 :: byte] < 20 \<and>
   parse_stun_response [0x01, 0x01, 0x00, 0x04] = Inr (Inl ''Response too short'') \<and>
   20 \<le> length [0x01, 0x01, 0x00, 0x0C, 1, 2, 3, 4, 5, 6, 7, 8, 9, 10, 11, 12, 0, 0, 0, 0,
                 0x00, 0x01, 0x00, 0x08, 0x00, 0x01 :: byte] \<and>
   length [0x01, 0x01, 0x00, 0x0C, 1, 2, 3, 4, 5, 6, 7, 8, 9, 10, 11, 12, 0, 0, 0, 0,
           0x00, 0x01, 0x00, 0x08, 0x00, 0x01 :: byte]
     < 20 + be16 [0x01, 0x01, 0x00, 0x0C, 1, 2, 3, 4, 5, 6, 7, 8, 9, 10, 11, 12, 0, 0, 0, 0,
                  0x00, 0x01, 0x00, 0x08, 0x00, 0x01] 2 \<and>
   parse_stun_response [0x01, 0x01, 0x00, 0x0C, 1, 2, 3, 4, 5, 6, 7, 8, 9, 10, 11, 12, 0, 0, 0, 0,
                        0x00, 0x01, 0x00, 0x08, 0x00, 0x01] =
     Inr (Inr \<lparr>msg_type = 0x0101, msg_length = 12,
               transaction_id = ''0102030405060708090a0b0c'', attributes = None\<rparr>)"
  using truncated_attributes_not_an_error [of "[0x01, 0x01, 0x00, 0x04]"]
        truncated_attributes_not_an_error
          [of "[0x01, 0x01, 0x00, 0x0C, 1, 2, 3, 4, 5, 6, 7, 8, 9, 10, 11, 12, 0, 0, 0, 0,
                0x00, 0x01, 0x00, 0x08, 0x00, 0x01]"]
  by (simp add: slice_def hex_def hex_digit_def be16_def)

text \<open>
  Claim C2 as written asks for a truncated-attribute error here: the header of this
  20-byte reply declares 8 bytes of attributes, none follows, and the decoder returns a
  message.
\<close>

theorem truncated_attributes_counterexample:
  "parse_stun_response
     [0x01, 0x01, 0x00, 0x08, 0xFF, 0xFF, 0xFF, 0xFF, 0xFF, 0xFF, 0xFF, 0xFF, 0xFF, 0xFF, 0xFF, 0xFF,
      0, 0, 0, 0] =
   Inr (Inr \<lparr>msg_type = 0x0101, msg_length = 8,
             transaction_id = ''ffffffffffffffffffffffff'', attributes = None\<rparr>)"
  by (simp add: parse_stun_response_def slice_def hex_def hex_digit_def)

text \<open>
  Claim C9. For every input of at least 20 bytes the decoder returns a message: it
  neither raises nor returns the error string, and the header fields are the
  big-endian numbers at offsets 0 and 2. When the declared attributes length exceeds
  what follows the first 20 bytes, the message has no attributes field. An error is
  returned exactly for inputs shorter than 20 bytes.
\<close>

theorem decoder_returns_message_from_20_bytes:
  "(20 \<le> length data \<longrightarrow>
      (\<exists>r. parse_stun_response data = Inr (Inr r) \<and>
           msg_type r = be16 data 0 \<and> msg_length r = be16 data 2 \<and>
           (length data < 20 + msg_length r \<longrightarrow> attributes r = None))) \<and>
   (((\<exists>e. parse_stun_response data = Inl e) \<or>
     (\<exists>s. parse_stun_response data = Inr (Inl s))) = (length data < 20))"
proof (cases "20 \<le> length data")
  case True
  then show ?thesis by (auto simp: parse_stun_response_header)
next
  case False
  then show ?thesis by (auto simp: parse_stun_response_short)
qed

theorem decoder_returns_message_from_20_bytes_witness:
  "20 \<le> length [0x01, 0x01, 0x00, 0x10, 1, 2, 3, 4, 5, 6, 7, 8, 9, 10, 11, 12, 0, 0, 0, 0 :: byte] \<and>
   length [0x01, 0x01, 0x00, 0x10, 1, 2, 3, 4, 5, 6, 7, 8, 9, 10, 11, 12, 0, 0, 0, 0 :: byte]
     < 20 + be16 [0x01, 0x01, 0x00, 0x10, 1, 2, 3, 4, 5, 6, 7, 8, 9, 10, 11, 12, 0, 0, 0, 0] 2 \<and>
   parse_stun_response [0x01, 0x01, 0x00, 0x10, 1, 2, 3, 4, 5, 6, 7, 8, 9, 10, 11, 12, 0, 0, 0, 0] =
     Inr (Inr \<lparr>msg_type = 0x0101, msg_length = 16,
               transaction_id = ''0102030405060708090a0b0c'', attributes = None\<rparr>)"
  using decoder_returns_message_from_20_bytes
          [of "[0x01, 0x01, 0x00, 0x10, 1, 2, 3, 4, 5, 6, 7, 8, 9, 10, 11, 12, 0, 0, 0, 0]"]
  by (simp add: parse_stun_response_def slice_def hex_def hex_digit_def be16_def)

subsection \<open>Termination of the attribute loop\<close>

text \<open>
  Claim C10. \<open>parse_attributes\<close> is total by the measure \<open>20 + msg_len - offset\<close>.
  On the loop with a bound: one test of the loop condition either goes round again,
  with the offset advanced by 4 plus the declared length of the attribute and one
  attribute appended, or leaves the loop (the condition is false, or fewer than 4
  bytes remain). With more than \<open>(20 + msg_len - offset + 3) / 4\<close> tests allowed the
  loop has left, for every input, declared length, offset and list of attributes, and
  it leaves with a list of attributes, never with an exception.
\<close>

theorem attribute_loop_terminates:
  "parse_attributes_fuel (Suc fuel) data msg_len offset attrs =
     (if offset < 20 + msg_len \<and> offset + 4 \<le> length data
      then parse_attributes_fuel fuel data msg_len (offset + 4 + be16 data (offset + 2))
             (attrs @ [\<lparr>type' = be16 data offset, length' = be16 data (offset + 2),
                value' = slice data (offset + 4) (offset + 4 + be16 data (offset + 2))\<rparr>])
      else Some (Inr attrs)) \<and>
   (20 + msg_len - offset + 3 < 4 * fuel \<longrightarrow>
      parse_attributes_fuel fuel data msg_len offset attrs =
        Some (parse_attributes data msg_len offset attrs) \<and>
      (\<exists>attrs'. parse_attributes data msg_len offset attrs = Inr attrs'))"
proof (intro conjI impI)
  show "parse_attributes_fuel (Suc fuel) data msg_len offset attrs =
     (if offset < 20 + msg_len \<and> offset + 4 \<le> length data
      then parse_attributes_fuel fuel data msg_len (offset + 4 + be16 data (offset + 2))
             (attrs @ [\<lparr>type' = be16 data offset, length' = be16 data (offset + 2),
                value' = slice data (offset + 4) (offset + 4 + be16 data (offset + 2))\<rparr>])
      else Some (Inr attrs))"
  proof (cases "offset < 20 + msg_len \<and> offset + 4 \<le> length data")
    case True
    have c: "(offset < 20 + msg_len \<and> offset + 4 \<le> length data) = True"
      using True by simp
    show ?thesis
      by (simp only: c if_True fuel_step[OF conjunct1[OF True] conjunct2[OF True]])
  next
    case False
    have c: "(offset < 20 + msg_len \<and> offset + 4 \<le> length data) = False"
      using False by simp
    show ?thesis
      by (simp only: c if_False fuel_exit[OF False])
  qed
next
  assume "20 + msg_len - offset + 3 < 4 * fuel"
  then show "parse_attributes_fuel fuel data msg_len offset attrs =
        Some (parse_attributes data msg_len offset attrs)"
    by (rule fuel_enough)
next
  show "\<exists>attrs'. parse_attributes data msg_len offset attrs = Inr attrs'"
    by (rule parse_attributes_returns)
qed

theorem attribute_loop_terminates_witness:
  "20 + 12 - 20 + 3 < 4 * Suc (Suc (Suc (Suc 0))) \<and>
   parse_attributes_fuel (Suc (Suc (Suc (Suc 0))))
     [0x01, 0x01, 0x00, 0x0C, 1, 2, 3, 4, 5, 6, 7, 8, 9, 10, 11, 12, 0, 0, 0, 0,
      0x00, 0x01, 0x00, 0x08, 0x00, 0x01, 0x12, 0x34, 192, 168, 1, 1] 12 20 [] =
   Some (Inr [\<lparr>type' = 1, length' = 8, value' = [0x00, 0x01, 0x12, 0x34, 192, 168, 1, 1]\<rparr>]) \<and>
   parse_attributes
     [0x01, 0x01, 0x00, 0x0C, 1, 2, 3, 4, 5, 6, 7, 8, 9, 10, 11, 12, 0, 0, 0, 0,
      0x00, 0x01, 0x00, 0x08, 0x00, 0x01, 0x12, 0x34, 192, 168, 1, 1] 12 20 [] =
   Inr [\<lparr>type' = 1, length' = 8, value' = [0x00, 0x01, 0x12, 0x34, 192, 168, 1, 1]\<rparr>]"
  using attribute_loop_terminates
          [of "Suc (Suc (Suc 0))"
              "[0x01, 0x01, 0x00, 0x0C, 1, 2, 3, 4, 5, 6, 7, 8, 9, 10, 11, 12, 0, 0, 0, 0,
                0x00, 0x01, 0x00, 0x08, 0x00, 0x01, 0x12, 0x34, 192, 168, 1, 1]" 12 20 "[]"]
  by (simp add: slice_def be16_def parse_attributes.simps)

section \<open>The request encoder and the round trip\<close>

lemma hex_value_digit: "n < 16 \<Longrightarrow> hex_value (hex_digit n) = n"
  unfolding hex_digit_def hex_value_def
  by (simp add: nth_Cons')

lemma hex_digit_inj: "n < 16 \<Longrightarrow> m < 16 \<Longrightarrow> hex_digit n = hex_digit m \<Longrightarrow> n = m"
  by (metis hex_value_digit)

lemma hex_Cons: "hex (b # bs) = hex_digit (unat b div 16) # hex_digit (unat b mod 16) # hex bs"
  by (simp add: hex_def)

lemma hex_Nil: "hex [] = []"
  by (simp add: hex_def)

lemma byte_from_nibbles:
  fixes a b :: byte
  assumes "hex_digit (unat a div 16) = hex_digit (unat b div 16)"
      and "hex_digit (unat a mod 16) = hex_digit (unat b mod 16)"
  shows "a = b"
proof -
  have la: "unat a < 256" and lb: "unat b < 256"
    using unsigned_less[of a, where 'a = nat] unsigned_less[of b, where 'a = nat] by simp_all
  have "unat a div 16 = unat b div 16"
    using assms(1) la lb by (intro hex_digit_inj) simp_all
  moreover have "unat a mod 16 = unat b mod 16"
    using assms(2) by (intro hex_digit_inj) simp_all
  ultimately have "unat a = unat b"
    by (metis div_mult_mod_eq)
  then show ?thesis by (simp add: word_unat_eq_iff)
qed

lemma hex_inject: "hex xs = hex ys \<Longrightarrow> xs = ys"
proof (induction xs arbitrary: ys)
  case Nil
  then show ?case by (cases ys) (simp_all add: hex_Nil hex_Cons)
next
  case (Cons x xs)
  then show ?case
    by (cases ys) (auto simp: hex_Nil hex_Cons dest: byte_from_nibbles)
qed

lemma create_stun_request_bytes: "create_stun_request tid = ([0x00, 0x01, 0x00, 0x00] @ tid, tid)"
  by (simp add: create_stun_request_def pack_HH_def)

text \<open>
  Claim C6. \<^verbatim>\<open>create_stun_request\<close> takes neither a message type nor attributes: it
  always writes the type \<open>0x0001\<close> and the attributes length 0. For every 12-byte
  transaction id its output is 16 bytes, with the big-endian message type at offset 0,
  the attributes byte length at offset 2 and the transaction id at offsets 4 to 15.
  \<^verbatim>\<open>parse_stun_response\<close> reads the same three fields at the same offsets: from any
  input of at least 20 bytes that starts with the encoded request it returns the
  message type, the length 0, the identical transaction id (as its hexadecimal string,
  which determines the bytes) and no attributes.
\<close>

theorem request_layout_and_decoding:
  assumes "length tid = 12"
  shows "create_stun_request tid = ([0x00, 0x01, 0x00, 0x00] @ tid, tid) \<and>
         length (fst (create_stun_request tid)) = 16 \<and>
         be16 (fst (create_stun_request tid)) 0 = 0x0001 \<and>
         be16 (fst (create_stun_request tid)) 2 = 0 \<and>
         slice (fst (create_stun_request tid)) 4 16 = tid \<and>
         (4 \<le> length pad \<longrightarrow>
            parse_stun_response (fst (create_stun_request tid) @ pad) =
              Inr (Inr \<lparr>msg_type = 0x0001, msg_length = 0, transaction_id = hex tid,
                        attributes = None\<rparr>)) \<and>
         (hex tid' = hex tid \<longrightarrow> tid' = tid)"
proof -
  let ?req = "[0x00, 0x01, 0x00, 0x00] @ tid"
  have a: "be16 (?req @ pad) 0 = 1" "be16 (?req @ pad) 2 = 0"
          "be16 ?req 0 = 1" "be16 ?req 2 = 0"
    by (simp_all add: be16_def)
  have b: "slice (?req @ pad) 4 16 = tid" "slice ?req 4 16 = tid"
    using assms by (simp_all add: slice_def)
  have d: "4 \<le> length pad \<Longrightarrow> parse_stun_response (?req @ pad) =
              Inr (Inr \<lparr>msg_type = 0x0001, msg_length = 0, transaction_id = hex tid,
                        attributes = None\<rparr>)"
    using assms by (subst parse_stun_response_header) (simp_all only: a b, simp_all)
  show ?thesis
    using assms a b d hex_inject[of tid' tid] by (simp add: create_stun_request_bytes)
qed

theorem request_layout_and_decoding_witness:
  "length [1, 2, 3, 4, 5, 6, 7, 8, 9, 10, 11, 12 :: byte] = 12 \<and>
   4 \<le> length [0x21, 0x12, 0xA4, 0x42 :: byte] \<and>
   fst (create_stun_request [1, 2, 3, 4, 5, 6, 7, 8, 9, 10, 11, 12]) =
     [0x00, 0x01, 0x00, 0x00, 1, 2, 3, 4, 5, 6, 7, 8, 9, 10, 11, 12] \<and>
   parse_stun_response
     (fst (create_stun_request [1, 2, 3, 4, 5, 6, 7, 8, 9, 10, 11, 12]) @ [0x21, 0x12, 0xA4, 0x42]) =
     Inr (Inr \<lparr>msg_type = 0x0001, msg_length = 0,
               transaction_id = ''0102030405060708090a0b0c'', attributes = None\<rparr>)"
  using request_layout_and_decoding
          [of "[1, 2, 3, 4, 5, 6, 7, 8, 9, 10, 11, 12]" "[0x21, 0x12, 0xA4, 0x42]"
              "[1, 2, 3, 4, 5, 6, 7, 8, 9, 10, 11, 12]"]
  by (simp add: create_stun_request_bytes hex_def hex_digit_def)

text \<open>
  Claim C6 as written decodes the bytes the encoder produced. They are 16 bytes, and
  the decoder answers every input under 20 bytes with the error string.
\<close>

theorem request_round_trip_counterexample:
  "parse_stun_response (fst (create_stun_request [1, 2, 3, 4, 5, 6, 7, 8, 9, 10, 11, 12])) =
     Inr (Inl ''Response too short'')"
  by (simp add: parse_stun_response_def create_stun_request_def pack_HH_def)

section \<open>The probe\<close>

text \<open>
  Claim C1. \<^verbatim>\<open>test_stun_server\<close> never compares the transaction id of the reply with
  the one it sent. When a reply arrives and decodes, the probe returns \<^verbatim>\<open>True\<close> exactly
  when the message type of the reply is \<open>0x0101\<close> and the scan of its attributes for a
  mapped address raises nothing; neither the transaction id sent nor the one received
  takes part.
\<close>

theorem probe_ignores_transaction_id:
  assumes "server (fst (create_stun_request A)) = Datagram response"
      and "parse_stun_response response = Inr (Inr parsed)"
  shows "test_stun_server True A server =
           Inr (msg_type parsed = 0x0101 \<and>
                (case attributes parsed of
                   None \<Rightarrow> True
                 | Some attrs \<Rightarrow>
                     (case find_mapped_address attrs of Inl e \<Rightarrow> False | Inr mapped \<Rightarrow> True)))"
proof -
  have r: "create_stun_request A = (fst (create_stun_request A), A)"
    by (simp add: create_stun_request_bytes)
  have "test_stun_server True A server =
          (if msg_type parsed = 0x0101 then
             (case attributes parsed of
                None \<Rightarrow> Inr True
              | Some attrs \<Rightarrow>
                  (case find_mapped_address attrs of
                     Inl e \<Rightarrow> Inr False
                   | Inr mapped \<Rightarrow> Inr True))
           else Inr False)"
    unfolding test_stun_server_def by (subst r) (simp add: assms)
  then show ?thesis
    by (simp split: option.split sum.split)
qed

theorem probe_ignores_transaction_id_witness:
  "fixed_server
     [0x01, 0x01, 0x00, 0x04, 1, 2, 3, 4, 5, 6, 7, 8, 9, 10, 11, 12, 0x21, 0x12, 0xA4, 0x42,
      0x80, 0x22, 0x00, 0x00]
     (fst (create_stun_request [1, 2, 3, 4, 5, 6, 7, 8, 9, 10, 11, 12])) =
   Datagram
     [0x01, 0x01, 0x00, 0x04, 1, 2, 3, 4, 5, 6, 7, 8, 9, 10, 11, 12, 0x21, 0x12, 0xA4, 0x42,
      0x80, 0x22, 0x00, 0x00] \<and>
   parse_stun_response
     [0x01, 0x01, 0x00, 0x04, 1, 2, 3, 4, 5, 6, 7, 8, 9, 10, 11, 12, 0x21, 0x12, 0xA4, 0x42,
      0x80, 0x22, 0x00, 0x00] =
   Inr (Inr \<lparr>msg_type = 0x0101, msg_length = 4,
             transaction_id = ''0102030405060708090a0b0c'',
             attributes = Some [\<lparr>type' = 0x8022, length' = 0, value' = []\<rparr>]\<rparr>) \<and>
   test_stun_server True [1, 2, 3, 4, 5, 6, 7, 8, 9, 10, 11, 12]
     (fixed_server
        [0x01, 0x01, 0x00, 0x04, 1, 2, 3, 4, 5, 6, 7, 8, 9, 10, 11, 12, 0x21, 0x12, 0xA4, 0x42,
         0x80, 0x22, 0x00, 0x00]) = Inr True"
proof -
  have p: "parse_stun_response
     [0x01, 0x01, 0x00, 0x04, 1, 2, 3, 4, 5, 6, 7, 8, 9, 10, 11, 12, 0x21, 0x12, 0xA4, 0x42,
      0x80, 0x22, 0x00, 0x00] =
   Inr (Inr \<lparr>msg_type = 0x0101, msg_length = 4,
             transaction_id = ''0102030405060708090a0b0c'',
             attributes = Some [\<lparr>type' = 0x8022, length' = 0, value' = []\<rparr>]\<rparr>)"
    by (simp add: parse_stun_response_def slice_def hex_def hex_digit_def parse_attributes.simps)
  have s: "fixed_server
     [0x01, 0x01, 0x00, 0x04, 1, 2, 3, 4, 5, 6, 7, 8, 9, 10, 11, 12, 0x21, 0x12, 0xA4, 0x42,
      0x80, 0x22, 0x00, 0x00]
     (fst (create_stun_request [1, 2, 3, 4, 5, 6, 7, 8, 9, 10, 11, 12])) =
   Datagram
     [0x01, 0x01, 0x00, 0x04, 1, 2, 3, 4, 5, 6, 7, 8, 9, 10, 11, 12, 0x21, 0x12, 0xA4, 0x42,
      0x80, 0x22, 0x00, 0x00]"
    by (simp add: fixed_server_def)
  show ?thesis
    using s p
      probe_ignores_transaction_id
        [of "fixed_server
               [0x01, 0x01, 0x00, 0x04, 1, 2, 3, 4, 5, 6, 7, 8, 9, 10, 11, 12, 0x21, 0x12, 0xA4,
                0x42, 0x80, 0x22, 0x00, 0x00]"
            "[1, 2, 3, 4, 5, 6, 7, 8, 9, 10, 11, 12]"
            "[0x01, 0x01, 0x00, 0x04, 1, 2, 3, 4, 5, 6, 7, 8, 9, 10, 11, 12, 0x21, 0x12, 0xA4,
              0x42, 0x80, 0x22, 0x00, 0x00]"
            "\<lparr>msg_type = 0x0101, msg_length = 4,
               transaction_id = ''0102030405060708090a0b0c'',
               attributes = Some [\<lparr>type' = 0x8022, length' = 0, value' = []\<rparr>]\<rparr>"]
    by simp
qed

text \<open>
  Claim C1 as written classifies a reply with another transaction id as a mismatch.
  Here the request carries twelve bytes \<open>0x00\<close>, the reply carries twelve bytes
  \<open>0xFF\<close>, and the probe returns \<^verbatim>\<open>True\<close>.
\<close>

theorem mismatched_reply_accepted_counterexample:
  "snd (create_stun_request [0, 0, 0, 0, 0, 0, 0, 0, 0, 0, 0, 0]) =
     [0, 0, 0, 0, 0, 0, 0, 0, 0, 0, 0, 0] \<and>
   parse_stun_response
     [0x01, 0x01, 0x00, 0x00, 0xFF, 0xFF, 0xFF, 0xFF, 0xFF, 0xFF, 0xFF, 0xFF, 0xFF, 0xFF, 0xFF, 0xFF,
      0, 0, 0, 0] =
   Inr (Inr \<lparr>msg_type = 0x0101, msg_length = 0,
             transaction_id = ''ffffffffffffffffffffffff'', attributes = None\<rparr>) \<and>
   hex [0, 0, 0, 0, 0, 0, 0, 0, 0, 0, 0, 0] = ''000000000000000000000000'' \<and>
   test_stun_server True [0, 0, 0, 0, 0, 0, 0, 0, 0, 0, 0, 0]
     (fixed_server
        [0x01, 0x01, 0x00, 0x00, 0xFF, 0xFF, 0xFF, 0xFF, 0xFF, 0xFF, 0xFF, 0xFF, 0xFF, 0xFF, 0xFF,
         0xFF, 0, 0, 0, 0]) = Inr True"
  by (simp add: test_stun_server_def create_stun_request_def fixed_server_def
        parse_stun_response_def slice_def hex_def hex_digit_def)

subsection \<open>The mapped address\<close>

text \<open>What the MAPPED-ADDRESS block reads from a value of at least 8 bytes: the family
  as the 16-bit number at bytes 2 and 3, the port at bytes 4 and 5, the address at
  bytes 6 to 9, which an 8-byte value does not have.\<close>

lemma parse_mapped_address_reads:
  assumes "8 \<le> length v"
  shows "parse_mapped_address v =
           (if be16 v 2 = 0x01
            then (if 10 \<le> length v then Inr (Some (map unat (slice v 6 10), be16 v 4))
                  else Inl OSError)
            else Inr None)"
proof -
  have 1: "unpack_H (slice v 2 4) = Inr (be16 v 2)"
    using assms by (intro unpack_H_slice_at) simp_all
  have 2: "unpack_H (slice v 4 6) = Inr (be16 v 4)"
    using assms by (intro unpack_H_slice_at) simp_all
  have 3: "length (slice v 6 10) = 4 \<longleftrightarrow> 10 \<le> length v"
    using assms by (auto simp: slice_def)
  show ?thesis
    using assms by (simp add: parse_mapped_address_def 1 2 3 inet_ntoa_def)
qed

text \<open>
  Claim C3. The claim places the family at byte 1, the port at bytes 2 and 3 and the IPv4
  address at bytes 4 to 7 of a value of at least 8 bytes, which is the layout the
  guard \<^verbatim>\<open>len(attr['value']) >= 8\<close> allows for. The code reads each field two bytes
  later. On the 8-byte value \<^verbatim>\<open>00 01 12 34 c0 a8 01 01\<close> (IPv4, port \<open>0x1234\<close>,
  192.168.1.1) it takes the port bytes for the family and decodes nothing; on
  \<^verbatim>\<open>00 01 00 01 c0 a8 01 01\<close> (IPv4, port 1, 192.168.1.1) it takes the port bytes
  for the family \<open>0x01\<close>, passes the two bytes left after offset 6 to
  \<^verbatim>\<open>inet_ntoa\<close>, which raises, and the probe of a well-formed success response
  returns \<^verbatim>\<open>False\<close>. Only a value of 10 bytes with the fields shifted by two is decoded.
\<close>

theorem mapped_address_read_two_bytes_late:
  "parse_mapped_address [0x00, 0x01, 0x12, 0x34, 192, 168, 1, 1] = Inr None \<and>
   parse_mapped_address [0x00, 0x01, 0x00, 0x01, 192, 168, 1, 1] = Inl OSError \<and>
   parse_mapped_address [0x00, 0x00, 0x00, 0x01, 0x12, 0x34, 192, 168, 1, 1] =
     Inr (Some ([192, 168, 1, 1], 0x1234)) \<and>
   test_stun_server True [1, 2, 3, 4, 5, 6, 7, 8, 9, 10, 11, 12]
     (fixed_server
        [0x01, 0x01, 0x00, 0x0C, 1, 2, 3, 4, 5, 6, 7, 8, 9, 10, 11, 12, 0x21, 0x12, 0xA4, 0x42,
         0x00, 0x01, 0x00, 0x08, 0x00, 0x01, 0x00, 0x01, 192, 168, 1, 1]) = Inr False"
  by (simp add: parse_mapped_address_def inet_ntoa_def test_stun_server_def
        create_stun_request_def fixed_server_def parse_stun_response_def slice_def
        parse_attributes.simps)

section \<open>Summary statistics\<close>

lemma py_min_Min: "xs \<noteq> [] \<Longrightarrow> py_min xs = Inr (Min (set xs))"
proof (cases xs)
  case Nil
  assume "xs \<noteq> []"
  with Nil show ?thesis by simp
next
  case (Cons a as)
  have "(\<lambda>y m. if y < m then y else m) = (min :: real \<Rightarrow> real \<Rightarrow> real)"
    by (intro ext) (simp add: min_def)
  then show ?thesis
    using Cons Min.set_eq_fold[of a as] by simp
qed

lemma py_max_Max: "xs \<noteq> [] \<Longrightarrow> py_max xs = Inr (Max (set xs))"
proof (cases xs)
  case Nil
  assume "xs \<noteq> []"
  with Nil show ?thesis by simp
next
  case (Cons a as)
  have "(\<lambda>y m. if y > m then y else m) = (max :: real \<Rightarrow> real \<Rightarrow> real)"
    by (intro ext) (simp add: max_def)
  then show ?thesis
    using Cons Max.set_eq_fold[of a as] by simp
qed

lemma throughput_summary_nonempty:
  assumes "durations \<noteq> []" "sum_list durations \<noteq> 0" "iterations' \<noteq> 0"
  shows "throughput_summary data_size' iterations' durations successful =
           Inr (Some \<lparr>data_size = data_size', iterations = iterations',
                  successful_transfers = successful,
                  success_rate = real successful / real iterations' * 100,
                  avg_duration_ms = sum_list durations / real (length durations) * 1000,
                  min_duration_ms = Min (set durations) * 1000,
                  max_duration_ms = Max (set durations) * 1000,
                  std_duration_ms =
                    (if length durations < 2 then 0
                     else sqrt ((\<Sum>x\<leftarrow>durations.
                                   (x - sum_list durations / real (length durations))\<^sup>2)
                                / (real (length durations) - 1))) * 1000,
                  throughput_mbps =
                    real (data_size' * 8)
                      / (sum_list durations / real (length durations) * 1000000),
                  throughput_roundtrip_mbps =
                    real (data_size' * 8 * 2)
                      / (sum_list durations / real (length durations) * 1000000)\<rparr>)"
proof -
  have "real (length durations - 1) = real (length durations) - 1"
    using assms(1) by (cases durations) simp_all
  then show ?thesis
    using assms
    by (simp add: throughput_summary_def statistics_mean_def statistics_stdev_def
          py_min_Min py_max_Max py_div_def Let_def not_less)
qed



text \<open>
  Claim C8. For every non-empty list of completed samples the statistics block returns
  the arithmetic mean, the minimum, the maximum and the sample standard deviation
  (divisor \<open>n - 1\<close>), the latter 0 for fewer than two samples; the throughput summary
  reports the same four numbers of its durations, in milliseconds. For the samples
  10, 20 and 30 the summary is mean 20, minimum 10, maximum 30 and standard deviation
  10. Times are real numbers here.
\<close>

theorem latency_summary_statistics:
  "(latencies \<noteq> [] \<longrightarrow>
      latency_statistics latencies =
        Inr \<lparr>average = sum_list latencies / real (length latencies),
             minimum = Min (set latencies),
             maximum = Max (set latencies),
             std_dev =
               (if length latencies < 2 then 0
                else sqrt ((\<Sum>x\<leftarrow>latencies. (x - sum_list latencies / real (length latencies))\<^sup>2)
                           / (real (length latencies) - 1))),
             samples = latencies\<rparr>) \<and>
   (latencies \<noteq> [] \<and> sum_list latencies \<noteq> 0 \<and> iterations' \<noteq> 0 \<longrightarrow>
      (\<exists>r. throughput_summary data_size' iterations' latencies successful = Inr (Some r) \<and>
           avg_duration_ms r = sum_list latencies / real (length latencies) * 1000 \<and>
           min_duration_ms r = Min (set latencies) * 1000 \<and>
           max_duration_ms r = Max (set latencies) * 1000 \<and>
           std_duration_ms r =
             (if length latencies < 2 then 0
              else sqrt ((\<Sum>x\<leftarrow>latencies. (x - sum_list latencies / real (length latencies))\<^sup>2)
                         / (real (length latencies) - 1))) * 1000)) \<and>
   latency_statistics [10, 20, 30] =
     Inr \<lparr>average = 20, minimum = 10, maximum = 30, std_dev = 10, samples = [10, 20, 30]\<rparr>"
proof (intro conjI impI)
  assume ne: "latencies \<noteq> []"
  have "real (length latencies - 1) = real (length latencies) - 1"
    using ne by (cases latencies) simp_all
  then show "latency_statistics latencies =
        Inr \<lparr>average = sum_list latencies / real (length latencies),
             minimum = Min (set latencies),
             maximum = Max (set latencies),
             std_dev =
               (if length latencies < 2 then 0
                else sqrt ((\<Sum>x\<leftarrow>latencies. (x - sum_list latencies / real (length latencies))\<^sup>2)
                           / (real (length latencies) - 1))),
             samples = latencies\<rparr>"
    using ne
    by (simp add: latency_statistics_def statistics_mean_def statistics_stdev_def
          py_min_Min py_max_Max Let_def not_less)
next
  assume "latencies \<noteq> [] \<and> sum_list latencies \<noteq> 0 \<and> iterations' \<noteq> 0"
  then show "\<exists>r. throughput_summary data_size' iterations' latencies successful = Inr (Some r) \<and>
           avg_duration_ms r = sum_list latencies / real (length latencies) * 1000 \<and>
           min_duration_ms r = Min (set latencies) * 1000 \<and>
           max_duration_ms r = Max (set latencies) * 1000 \<and>
           std_duration_ms r =
             (if length latencies < 2 then 0
              else sqrt ((\<Sum>x\<leftarrow>latencies. (x - sum_list latencies / real (length latencies))\<^sup>2)
                         / (real (length latencies) - 1))) * 1000"
    by (simp add: throughput_summary_nonempty)
next
  show "latency_statistics [10, 20, 30] =
     Inr \<lparr>average = 20, minimum = 10, maximum = 30, std_dev = 10, samples = [10, 20, 30]\<rparr>"
    by (simp add: latency_statistics_def statistics_mean_def statistics_stdev_def Let_def)
qed

theorem latency_summary_statistics_witness:
  "[12, 15 :: real] \<noteq> [] \<and> sum_list [12, 15 :: real] \<noteq> 0 \<and> (5 :: nat) \<noteq> 0 \<and>
   latency_statistics [12, 15] =
     Inr \<lparr>average = 27 / 2, minimum = 12, maximum = 15, std_dev = sqrt (9 / 2),
          samples = [12, 15]\<rparr> \<and>
   (\<exists>r. throughput_summary 1024 5 [12, 15] 2 = Inr (Some r) \<and>
        avg_duration_ms r = 13500 \<and> min_duration_ms r = 12000 \<and>
        max_duration_ms r = 15000 \<and> std_duration_ms r = sqrt (9 / 2) * 1000)"
  using latency_summary_statistics [of "[12, 15]" 5 1024 2]
  by (simp add: power2_eq_square)

section \<open>The latency sweep\<close>

lemma relay_latency_loop_entered:
  "snd (relay_latency_loop net is latencies entered) = entered + length is"
proof (induction "is" arbitrary: latencies entered)
  case Nil
  then show ?case by simp
next
  case (Cons i "is")
  then show ?case
    by (cases "net i") (simp_all split: exchange.split)
qed

lemma relay_test_latency_runs_all:
  "fst (snd (relay_test_latency iterations' net)) = iterations'"
proof -
  obtain latencies entered where
    l: "relay_latency_loop net [0..<iterations'] [] 0 = (latencies, entered)"
    by (cases "relay_latency_loop net [0..<iterations'] [] 0")
  with relay_latency_loop_entered[of net "[0..<iterations']" "[]" 0]
  have "entered = iterations'" by simp
  then show ?thesis
    using l by (simp add: relay_test_latency_def split: sum.split)
qed

lemma speed_latency_loop_prefix:
  assumes "\<forall>j\<in>set xs. \<exists>m t. net j = Received m t"
  shows "\<exists>latencies'. speed_latency_loop net (xs @ ys) latencies entered =
           speed_latency_loop net ys latencies' (entered + length xs)"
  using assms
proof (induction xs arbitrary: latencies entered)
  case Nil
  then show ?case by auto
next
  case (Cons x xs)
  then obtain m t where r: "net x = Received m t" by auto
  from Cons.prems have "\<forall>j\<in>set xs. \<exists>m t. net j = Received m t" by simp
  from Cons.IH[OF this, of "latencies @ [t * 1000]" "Suc entered"]
  show ?case by (simp add: r)
qed

lemma speed_test_latency_stops_at_timeout:
  assumes "i < n" and "\<forall>j<i. \<exists>m t. net j = Received m t" and "net i = RecvTimeout"
  shows "speed_test_latency True n net = (Inr False, Suc i, None)"
proof -
  have u: "[0..<n] = [0..<i] @ i # [Suc i..<n]"
  proof -
    have "[0..<n] = [0..<i] @ [i..<n]"
      using assms(1) upt_add_eq_append[of 0 i "n - i"] by simp
    then show ?thesis using assms(1) by (simp add: upt_conv_Cons)
  qed
  have "\<forall>j\<in>set [0..<i]. \<exists>m t. net j = Received m t"
    using assms(2) by simp
  from speed_latency_loop_prefix[OF this, of "i # [Suc i..<n]" "[]" 0]
  obtain latencies' where
    "speed_latency_loop net [0..<n] [] 0 = speed_latency_loop net (i # [Suc i..<n]) latencies' i"
    unfolding u by auto
  then have "speed_latency_loop net [0..<n] [] 0 = (Inl SocketTimeout, Suc i)"
    by (simp add: assms(3))
  then show ?thesis by (simp add: speed_test_latency_def)
qed

text \<open>
  Claim C4. A receive timeout is to count as a failed sample, with the remaining
  iterations still run. \<^verbatim>\<open>RelaySpeedTest.test_latency\<close>, with the \<^verbatim>\<open>try\<close> inside the
  loop, does so: it enters every iteration whatever the outcomes
  (\<open>relay_test_latency_runs_all\<close>). In \<^verbatim>\<open>SpeedTest.test_latency\<close> the \<^verbatim>\<open>try\<close>
  encloses the whole loop, and the first timeout ends the sweep
  (\<open>speed_test_latency_stops_at_timeout\<close>). On three iterations with a timeout in the
  first, it returns \<^verbatim>\<open>False\<close> after that one iteration, without statistics, where the
  relay test enters all three and summarises the two samples that completed.
\<close>

theorem speed_latency_timeout_ends_sweep:
  "speed_test_latency True 3 (script [RecvTimeout] (Received True (1 / 100))) =
     (Inr False, 1, None) \<and>
   relay_test_latency 3 (script [Exchange RecvTimeout] (Exchange (Received True (1 / 100)))) =
     (Inr True, 3,
      Some \<lparr>average = 10, minimum = 10, maximum = 10, std_dev = 0, samples = [10, 10]\<rparr>)"
  by (simp add: speed_test_latency_def relay_test_latency_def script_def upt_conv_Cons
        latency_statistics_def statistics_mean_def statistics_stdev_def Let_def)

section \<open>Empty sample sets and the stress verdict\<close>







text \<open>The verdict of the stress test for every run: success needs a success rate
  above 80 and an elapsed time other than zero, since the division by the elapsed time
  comes before the \<^verbatim>\<open>return\<close>.\<close>

lemma test_stress_verdict:
  assumes "stress_loop events (0, 0, 0) = (sent, received, errs)"
  shows "fst (test_stress True events actual_duration) =
           Inr ((if sent > 0 then real received / real sent * 100 else 0) > 80 \<and>
                actual_duration \<noteq> 0)"
  using assms by (simp add: test_stress_def py_div_def Let_def)

text \<open>
  Claim C7. With its socket open, the stress test returns \<^verbatim>\<open>True\<close> exactly when the
  success rate, messages received by messages sent times 100 and 0 when nothing was
  sent, is greater than 80, and \<^verbatim>\<open>False\<close> otherwise. \<open>actual_duration\<close> is the
  difference of two clock readings around a loop that, if it ran at all, ran until
  \<^verbatim>\<open>duration\<close> seconds had passed: it is zero only for a run without iterations,
  unless the clock steps back.
\<close>

theorem stress_success_threshold:
  assumes "stress_loop events (0, 0, 0) = (sent, received, errs)"
      and "events = [] \<or> actual_duration \<noteq> 0"
  shows "fst (test_stress True events actual_duration) =
           Inr ((if sent > 0 then real received / real sent * 100 else 0) > 80)"
proof (cases "actual_duration = 0")
  case True
  with assms have "sent = 0" by auto
  then show ?thesis
    using assms(1) by (simp add: test_stress_def py_div_def Let_def)
next
  case False
  then show ?thesis
    using assms(1) by (simp add: test_stress_def py_div_def Let_def)
qed

theorem stress_success_threshold_witness:
  "stress_loop [Received True (1 / 1000), RecvTimeout, Received True (1 / 1000),
                Received True (1 / 1000), Received False (1 / 1000)] (0, 0, 0) = (5, 3, 1) \<and>
   (2 :: real) \<noteq> 0 \<and>
   fst (test_stress True [Received True (1 / 1000), RecvTimeout, Received True (1 / 1000),
                Received True (1 / 1000), Received False (1 / 1000)] 2) = Inr False \<and>
   stress_loop [Received True (1 / 1000), Received True (1 / 1000), Received True (1 / 1000),
                Received True (1 / 1000), Received True (1 / 1000)] (0, 0, 0) = (5, 5, 0) \<and>
   fst (test_stress True [Received True (1 / 1000), Received True (1 / 1000),
                Received True (1 / 1000), Received True (1 / 1000), Received True (1 / 1000)] 2)
     = Inr True"
  using stress_success_threshold
          [of "[Received True (1 / 1000), RecvTimeout, Received True (1 / 1000),
                Received True (1 / 1000), Received False (1 / 1000)]" 5 3 1 2]
        stress_success_threshold
          [of "[Received True (1 / 1000), Received True (1 / 1000), Received True (1 / 1000),
                Received True (1 / 1000), Received True (1 / 1000)]" 5 5 0 2]
  by simp

end
